theory Spec2Isabelle
  imports Main
begin

section \<open>The Windows quickstart script (scripts/quickstart.ps1)\<close>

subsection \<open>Pending-reboot probe\<close>

text \<open>
  What the optional management agent (the CCM client SDK) does when it is asked:
  the class cast throws when the agent is not there, the method call may throw, or
  it returns a status, which is null or carries the RebootPending property.
\<close>

datatype ccm_agent =
    AgentUnavailable
  | QueryThrows
  | QueryReturns "bool option"

datatype ps_error = InvalidCast | MethodInvocation

text \<open>
  The four things Test-PendingReboot reads. The first three are the truth values of
  what Get-ChildItem, Get-Item and Get-ItemProperty return under -EA Ignore (nothing
  when the key or the property is absent).
\<close>

record reboot_signals =
  component_servicing :: bool
  update_reboot_required :: bool
  pending_file_rename :: bool
  ccm :: ccm_agent

text \<open>The body of the try block, up to the value of \<open>$status\<close>.\<close>

definition DetermineIfRebootPending :: "ccm_agent \<Rightarrow> ps_error + bool option" where
  "DetermineIfRebootPending a =
     (case a of
        AgentUnavailable \<Rightarrow> Inl InvalidCast
      | QueryThrows \<Rightarrow> Inl MethodInvocation
      | QueryReturns status \<Rightarrow> Inr status)"

definition Test_PendingReboot :: "reboot_signals \<Rightarrow> int" where
  "Test_PendingReboot s =
     (if component_servicing s then 1
      else if update_reboot_required s then 1
      else if pending_file_rename s then 1
      else (case DetermineIfRebootPending (ccm s) of
              Inl e \<Rightarrow> 0
            | Inr None \<Rightarrow> 0
            | Inr (Some RebootPending) \<Rightarrow> (if RebootPending then 1 else 0)))"

subsection \<open>The host the script provisions\<close>

datatype feature = Microsoft_Windows_Subsystem_Linux | VirtualMachinePlatform

text \<open>
  The State property of Get-WindowsOptionalFeature. The script compares it with
  "Disabled" only; a feature enabled with -NoRestart stays EnablePending until the
  machine has restarted.
\<close>

datatype feature_state = Disabled | EnablePending | Enabled

text \<open>The two files the script keeps under the Temp directory of drive C.\<close>

datatype artifact = UBUNTU2004_appx | docker_desktop_installer_exe

text \<open>
  The part of the machine the script reads: the two optional features, the two
  downloaded files, the Ubuntu appx package, the user name of the environment, and the
  reboot signals. The signals change under the script with every update pass, so the
  host carries what the probe will find after the n-th pass of Get-WUInstall.
\<close>

record host =
  subsystem_linux :: feature_state
  virtual_machine_platform :: feature_state
  ubuntu_image_file :: bool
  ubuntu_appx_package :: bool
  docker_installer_file :: bool
  username :: string
  update_passes :: nat
  signals_after :: "nat \<Rightarrow> reboot_signals"

definition probe :: "host \<Rightarrow> reboot_signals" where
  "probe h = signals_after h (update_passes h)"

definition feature_state_of :: "feature \<Rightarrow> host \<Rightarrow> feature_state" where
  "feature_state_of f h =
     (case f of
        Microsoft_Windows_Subsystem_Linux \<Rightarrow> subsystem_linux h
      | VirtualMachinePlatform \<Rightarrow> virtual_machine_platform h)"

definition Test_Path :: "artifact \<Rightarrow> host \<Rightarrow> bool" where
  "Test_Path a h =
     (case a of
        UBUNTU2004_appx \<Rightarrow> ubuntu_image_file h
      | docker_desktop_installer_exe \<Rightarrow> docker_installer_file h)"

text \<open>
  Every command the script issues, in the order it issues them. Write-Host and
  Start-Sleep leave the machine as it is; every other command acts on it.
\<close>

datatype event =
    Write_Host
  | Start_Sleep nat
  | New_Item_Temp
  | Install_PackageProvider
  | Install_Module
  | Get_WUInstall
  | Restart_Computer
  | DownloadFile_ConfigureRemotingForAnsible
  | Run_ConfigureRemotingForAnsible
  | Enable_WindowsOptionalFeature feature
  | Start_BitsTransfer artifact
  | Add_AppxPackage
  | Start_Process_ubuntu string
  | Start_Process_docker_installer
  | Docker_Desktop_exe

fun mutating :: "event \<Rightarrow> bool" where
  "mutating Write_Host = False"
| "mutating (Start_Sleep n) = False"
| "mutating e = True"

definition settle :: "feature_state \<Rightarrow> feature_state" where
  "settle st = (case st of EnablePending \<Rightarrow> Enabled | Disabled \<Rightarrow> Disabled | Enabled \<Rightarrow> Enabled)"

text \<open>What a command leaves behind on the machine, as far as the script reads it back.\<close>

fun effect :: "event \<Rightarrow> host \<Rightarrow> host" where
  "effect Get_WUInstall h = h\<lparr>update_passes := Suc (update_passes h)\<rparr>"
| "effect Restart_Computer h =
     h\<lparr>subsystem_linux := settle (subsystem_linux h),
       virtual_machine_platform := settle (virtual_machine_platform h)\<rparr>"
| "effect (Enable_WindowsOptionalFeature Microsoft_Windows_Subsystem_Linux) h =
     h\<lparr>subsystem_linux := EnablePending\<rparr>"
| "effect (Enable_WindowsOptionalFeature VirtualMachinePlatform) h =
     h\<lparr>virtual_machine_platform := EnablePending\<rparr>"
| "effect (Start_BitsTransfer UBUNTU2004_appx) h = h\<lparr>ubuntu_image_file := True\<rparr>"
| "effect (Start_BitsTransfer docker_desktop_installer_exe) h = h\<lparr>docker_installer_file := True\<rparr>"
| "effect Add_AppxPackage h = h\<lparr>ubuntu_appx_package := True\<rparr>"
| "effect e h = h"

subsection \<open>The variable rebootrequired\<close>

text \<open>
  The script sets \<open>$rebootrequired = 0\<close> at the top, three of its functions assign
  it, and the workflow tests it. PowerShell creates an unqualified variable that is
  assigned inside a function in the scope of that function, so the assignments of
  lines 54 and 70 never reach the variable the workflow tests at line 174: this is
  \<open>FunctionLocal\<close>, the scoping the script runs under. \<open>SharedFlag\<close> is the reading
  the script was written for, in which the assignment inside a function reaches the
  variable of the workflow. The model carries both, so that a statement can be shown
  for the script as it runs and, where it holds there too, for the script as it was
  meant.
\<close>

datatype scoping = SharedFlag | FunctionLocal

record wf_state =
  machine :: host
  rebootrequired :: int

text \<open>
  A run so far: the commands issued, and the state they led to. The functions of
  the script extend it.
\<close>

type_synonym run = "event list \<times> wf_state"

definition cmd :: "event \<Rightarrow> run \<Rightarrow> run" where
  "cmd e r = (fst r @ [e], (snd r)\<lparr>machine := effect e (machine (snd r))\<rparr>)"

definition assign_in_function :: "scoping \<Rightarrow> int \<Rightarrow> run \<Rightarrow> run" where
  "assign_in_function sc v r =
     (case sc of
        SharedFlag \<Rightarrow> (fst r, (snd r)\<lparr>rebootrequired := v\<rparr>)
      | FunctionLocal \<Rightarrow> r)"

subsection \<open>The functions of the script\<close>

definition EnsureWindowsUpdated :: "scoping \<Rightarrow> run \<Rightarrow> run" where
  "EnsureWindowsUpdated sc r =
     (let r1 = cmd Write_Host r;
          r2 = cmd Get_WUInstall r1;
          pending = Test_PendingReboot (probe (machine (snd r2)));
          r3 = assign_in_function sc pending r2
      in if pending = 1
         then assign_in_function sc 0 (cmd Restart_Computer r3)
         else r3)"

definition EnsureLinuxSubsystemEnabled :: "scoping \<Rightarrow> run \<Rightarrow> run" where
  "EnsureLinuxSubsystemEnabled sc r =
     (if feature_state_of Microsoft_Windows_Subsystem_Linux (machine (snd r)) = Disabled
      then assign_in_function sc 1
             (cmd (Enable_WindowsOptionalFeature Microsoft_Windows_Subsystem_Linux)
               (cmd Write_Host r))
      else cmd Write_Host r)"

definition EnsureVirtualMachinePlatformEnabled :: "scoping \<Rightarrow> run \<Rightarrow> run" where
  "EnsureVirtualMachinePlatformEnabled sc r =
     (if feature_state_of VirtualMachinePlatform (machine (snd r)) = Disabled
      then assign_in_function sc 1
             (cmd (Enable_WindowsOptionalFeature VirtualMachinePlatform)
               (cmd Write_Host r))
      else cmd Write_Host r)"

definition EnsureUbuntuAPPXInstalled :: "run \<Rightarrow> run" where
  "EnsureUbuntuAPPXInstalled r =
     (let r1 = (if \<not> Test_Path UBUNTU2004_appx (machine (snd r))
                then cmd (Start_BitsTransfer UBUNTU2004_appx) (cmd Write_Host r)
                else cmd Write_Host r);
          ubu2004appxinstalled = ubuntu_appx_package (machine (snd r1))
      in if ubu2004appxinstalled
         then cmd Write_Host r1
         else cmd Add_AppxPackage (cmd Write_Host r1))"

definition SetupUbuntuWSL :: "run \<Rightarrow> run" where
  "SetupUbuntuWSL r =
     (let user = username (machine (snd r));
          r1 = cmd (Start_Process_ubuntu ''install --root'') (cmd Write_Host r);
          r2 = cmd (Start_Process_ubuntu
                 (''run adduser '' @ user @
                  '' --gecos 'First,Last,RoomNumber,WorkPhone,HomePhone' --disabled-password''))
                 (cmd Write_Host r1);
          r3 = cmd (Start_Process_ubuntu (''run usermod -aG sudo '' @ user)) (cmd Write_Host r2);
          r4 = cmd (Start_Process_ubuntu
                 (''run echo '' @ [CHR 0x27] @ user @ '' ALL=(ALL) NOPASSWD: ALL' >> /etc/sudoers''))
                 (cmd Write_Host r3)
      in cmd (Start_Process_ubuntu (''config --default-user '' @ user)) (cmd Write_Host r4))"

definition EnsureDockerDesktopInstalled :: "run \<Rightarrow> run" where
  "EnsureDockerDesktopInstalled r =
     (let r1 = cmd Write_Host r;
          r2 = (if \<not> Test_Path docker_desktop_installer_exe (machine (snd r1))
                then cmd (Start_BitsTransfer docker_desktop_installer_exe) (cmd Write_Host r1)
                else r1);
          r3 = cmd Start_Process_docker_installer r2;
          r4 = cmd Docker_Desktop_exe (cmd Write_Host r3);
          r5 = cmd (Start_Sleep 30) r4
      in cmd Write_Host r5)"

definition EnableWinRM :: "run \<Rightarrow> run" where
  "EnableWinRM r =
     cmd Run_ConfigureRemotingForAnsible (cmd DownloadFile_ConfigureRemotingForAnsible r)"

definition RunPlaybook :: "run \<Rightarrow> run" where
  "RunPlaybook r =
     cmd (Start_Process_ubuntu ''run bash ~/Playbooks/.cache/ansible-playbook-continue-command.sh'')
       (cmd (Start_Process_ubuntu
          (''run curl -sSL https://gitlab.com/megabyte-labs/gas-station/-/raw/master/scripts/quickstart.sh'' @
           '' > quickstart.sh && bash quickstart.sh'')) r)"

subsection \<open>The workflow Provision-Windows-WSL-Ansible\<close>

text \<open>The statements of the workflow body, one constructor for each kind.\<close>

datatype activity =
    Install_PackageProvider_NuGet
  | Install_Module_PSWindowsUpdate
  | Call_EnsureWindowsUpdated
  | Call_EnableWinRM
  | Call_EnsureLinuxSubsystemEnabled
  | Call_EnsureVirtualMachinePlatformEnabled
  | If_rebootrequired_Restart_Computer
  | Call_EnsureUbuntuAPPXInstalled
  | Call_SetupUbuntuWSL
  | Call_EnsureDockerDesktopInstalled
  | Restart_Computer_Wait
  | Call_RunPlaybook
  | Write_Host_All_done

definition Provision_Windows_WSL_Ansible :: "activity list" where
  "Provision_Windows_WSL_Ansible =
     [Install_PackageProvider_NuGet,
      Install_Module_PSWindowsUpdate,
      Call_EnsureWindowsUpdated,
      Call_EnsureWindowsUpdated,
      Call_EnsureWindowsUpdated,
      Call_EnableWinRM,
      Call_EnsureLinuxSubsystemEnabled,
      Call_EnsureVirtualMachinePlatformEnabled,
      If_rebootrequired_Restart_Computer,
      Call_EnsureUbuntuAPPXInstalled,
      Call_SetupUbuntuWSL,
      Call_EnsureDockerDesktopInstalled,
      Restart_Computer_Wait,
      Call_RunPlaybook,
      Write_Host_All_done]"

fun perform :: "scoping \<Rightarrow> activity \<Rightarrow> run \<Rightarrow> run" where
  "perform sc Install_PackageProvider_NuGet r = cmd Install_PackageProvider r"
| "perform sc Install_Module_PSWindowsUpdate r = cmd Install_Module r"
| "perform sc Call_EnsureWindowsUpdated r = EnsureWindowsUpdated sc r"
| "perform sc Call_EnableWinRM r = EnableWinRM r"
| "perform sc Call_EnsureLinuxSubsystemEnabled r = EnsureLinuxSubsystemEnabled sc r"
| "perform sc Call_EnsureVirtualMachinePlatformEnabled r = EnsureVirtualMachinePlatformEnabled sc r"
| "perform sc If_rebootrequired_Restart_Computer r =
     (if rebootrequired (snd r) = 1 then cmd Restart_Computer r else r)"
| "perform sc Call_EnsureUbuntuAPPXInstalled r = EnsureUbuntuAPPXInstalled r"
| "perform sc Call_SetupUbuntuWSL r = SetupUbuntuWSL r"
| "perform sc Call_EnsureDockerDesktopInstalled r = EnsureDockerDesktopInstalled r"
| "perform sc Restart_Computer_Wait r = cmd Restart_Computer r"
| "perform sc Call_RunPlaybook r = RunPlaybook r"
| "perform sc Write_Host_All_done r = cmd Write_Host r"

text \<open>One execution of a step, from a given state: the commands it issues and the state it leaves.\<close>

definition execute :: "scoping \<Rightarrow> activity \<Rightarrow> wf_state \<Rightarrow> event list \<times> wf_state" where
  "execute sc a s = perform sc a ([], s)"

definition restarts :: "event list \<Rightarrow> nat" where
  "restarts evs = length (filter (\<lambda>e. e = Restart_Computer) evs)"

text \<open>
  The header of the script says that the workflow "will reboot and continue where it
  left off". \<open>job_steps\<close> takes the header at its word: it executes the statements
  in turn, whether or not one of them restarted the machine, and numbers them from
  \<open>k\<close>. A restart inside EnsureWindowsUpdated is followed by one more assignment
  of the function, which \<open>execute\<close> has applied already.
\<close>

fun job_steps ::
  "scoping \<Rightarrow> nat \<Rightarrow> activity list \<Rightarrow> wf_state \<Rightarrow> (nat \<times> event list) list \<times> wf_state" where
  "job_steps sc k [] s = ([], s)"
| "job_steps sc k (a # as) s =
     (case execute sc a s of
        (evs, s') \<Rightarrow>
          (case job_steps sc (Suc k) as s' of
             (tr, s'') \<Rightarrow> ((k, evs) # tr, s'')))"

text \<open>The workflow job: the statements of the workflow body from the first one.\<close>

definition job :: "scoping \<Rightarrow> wf_state \<Rightarrow> (nat \<times> event list) list \<times> wf_state" where
  "job sc s = job_steps sc 0 Provision_Windows_WSL_Ansible s"

text \<open>
  The script itself: it creates the Temp directory, sets the flag to 0 and starts
  the workflow at its first statement.
\<close>

definition quickstart :: "scoping \<Rightarrow> host \<Rightarrow> (nat \<times> event list) list \<times> wf_state" where
  "quickstart sc h =
     job sc \<lparr>machine = effect New_Item_Temp h, rebootrequired = 0\<rparr>"

definition commands :: "(nat \<times> event list) list \<Rightarrow> event list" where
  "commands tr = concat (map snd tr)"

definition commands_of_step :: "nat \<Rightarrow> (nat \<times> event list) list \<Rightarrow> event list" where
  "commands_of_step i tr = concat (map snd (filter (\<lambda>p. fst p = i) tr))"

subsection \<open>The checkpointed runner of the specification\<close>

text \<open>
  The script keeps no checkpoint and takes no argument: it always enters the workflow
  at its first statement, and leaves continuing after a restart to the PowerShell
  workflow engine, which is not among the sources. The Checkpoint Store and the
  WorkflowRunner that resumes from it are taken from the specification (sections 3,
  4.4 and 6). The steps the runner executes, and the restarts they issue, are the
  statements of the script.
\<close>







section \<open>The Vagrant prompt (.config/scripts/prompts/vagrant-up.js)\<close>

subsection \<open>The machine as the Node process sees it\<close>

datatype stdio = Pipe | Ignore | Inherit

record exec_options =
  shell :: "string option"
  stdio :: stdio

definition options :: exec_options where
  "options = \<lparr>shell = None, stdio = Ignore\<rparr>"

definition optionsPowerShell :: exec_options where
  "optionsPowerShell = \<lparr>shell = Some ''powershell.exe'', stdio = Ignore\<rparr>"

text \<open>
  \<open>run_command\<close> is what a shell does with a command line: its exit status and
  what it writes to standard output. \<open>environment\<close> is \<open>process.env\<close>,
  \<open>directory\<close> lists the entries of a directory that exists, \<open>platform\<close> is
  \<open>process.platform\<close>.
\<close>

record system =
  run_command :: "string option \<Rightarrow> string \<Rightarrow> nat \<times> string"
  environment :: "string \<Rightarrow> string option"
  directory :: "string \<Rightarrow> string list option"
  platform :: string

datatype js_error = CommandFailed string nat | ENOENT string

text \<open>
  \<open>execSync\<close> of node:child_process throws when the command exits with a status
  other than 0; otherwise it returns the standard output it collected, which is a
  Buffer when the stream is piped and null when it is ignored or inherited.
  \<open>None\<close> is null.
\<close>

definition execSync :: "system \<Rightarrow> string \<Rightarrow> exec_options \<Rightarrow> js_error + string option" where
  "execSync sys command opts =
     (case run_command sys (shell opts) command of
        (status, out) \<Rightarrow>
          if status \<noteq> 0 then Inl (CommandFailed command status)
          else Inr (case stdio opts of Pipe \<Rightarrow> Some out | Ignore \<Rightarrow> None | Inherit \<Rightarrow> None))"

text \<open>\<open>readdirSync\<close> of node:fs throws when the directory does not exist.\<close>

definition readdirSync :: "system \<Rightarrow> string \<Rightarrow> js_error + string list" where
  "readdirSync sys path =
     (case directory sys path of None \<Rightarrow> Inl (ENOENT path) | Some files \<Rightarrow> Inr files)"

text \<open>\<open>Boolean\<close> of a Buffer or null: an object is true, null is false.\<close>

definition Boolean :: "string option \<Rightarrow> bool" where
  "Boolean v = (case v of None \<Rightarrow> False | Some buffer \<Rightarrow> True)"

text \<open>
  A value that is a string or undefined: \<open>x && y\<close> is \<open>x\<close> when \<open>x\<close> is undefined or
  the empty string, and \<open>y\<close> otherwise; \<open>filter(Boolean)\<close> drops undefined and the
  empty string.
\<close>

definition and_template :: "string option \<Rightarrow> string \<Rightarrow> string option" where
  "and_template x suffix =
     (case x of None \<Rightarrow> None | Some v \<Rightarrow> if v = [] then Some [] else Some (v @ suffix))"

fun filter_Boolean :: "string option list \<Rightarrow> string list" where
  "filter_Boolean [] = []"
| "filter_Boolean (None # xs) = filter_Boolean xs"
| "filter_Boolean (Some v # xs) = (if v = [] then filter_Boolean xs else v # filter_Boolean xs)"

text \<open>Array methods whose callback may throw: the first exception ends the call.\<close>

definition bind_js :: "js_error + 'a \<Rightarrow> ('a \<Rightarrow> js_error + 'b) \<Rightarrow> js_error + 'b" where
  "bind_js m f = (case m of Inl e \<Rightarrow> Inl e | Inr v \<Rightarrow> f v)"

fun map_js :: "('a \<Rightarrow> js_error + 'b) \<Rightarrow> 'a list \<Rightarrow> js_error + 'b list" where
  "map_js f [] = Inr []"
| "map_js f (x # xs) =
     bind_js (f x) (\<lambda>y. bind_js (map_js f xs) (\<lambda>ys. Inr (y # ys)))"

fun filter_js :: "('a \<Rightarrow> js_error + bool) \<Rightarrow> 'a list \<Rightarrow> js_error + 'a list" where
  "filter_js f [] = Inr []"
| "filter_js f (x # xs) =
     bind_js (f x) (\<lambda>keep. bind_js (filter_js f xs) (\<lambda>ys. Inr (if keep then x # ys else ys)))"

fun some_js :: "('a \<Rightarrow> js_error + bool) \<Rightarrow> 'a list \<Rightarrow> js_error + bool" where
  "some_js f [] = Inr False"
| "some_js f (x # xs) = bind_js (f x) (\<lambda>found. if found then Inr True else some_js f xs)"

definition endsWith :: "string \<Rightarrow> string \<Rightarrow> bool" where
  "endsWith s suffix =
     (length suffix \<le> length s \<and> drop (length s - length suffix) s = suffix)"

text \<open>\<open>replace(/\.desktop$/u, '')\<close>: the suffix goes when the string ends with it.\<close>

definition replace_desktop :: "string \<Rightarrow> string" where
  "replace_desktop s =
     (if endsWith s ''.desktop'' then take (length s - length ''.desktop'') s else s)"

subsection \<open>The detectors\<close>

definition exec :: "system \<Rightarrow> string \<Rightarrow> js_error + string option" where
  "exec sys command = execSync sys command options"

definition execPowerShell :: "system \<Rightarrow> string \<Rightarrow> js_error + string option" where
  "execPowerShell sys command = execSync sys command optionsPowerShell"

definition isUnixInstalled :: "system \<Rightarrow> string \<Rightarrow> js_error + bool" where
  "isUnixInstalled sys program =
     bind_js (exec sys (''hash '' @ program @ '' 2>/dev/null'')) (\<lambda>v. Inr (Boolean v))"

definition isDotDesktopInstalled :: "system \<Rightarrow> string \<Rightarrow> js_error + bool" where
  "isDotDesktopInstalled sys program =
     bind_js
       (filter_js (\<lambda>path. bind_js (readdirSync sys path) (\<lambda>files. Inr True))
          (filter_Boolean
             [and_template (environment sys ''XDG_DATA_HOME'') ''/applications'',
              and_template (environment sys ''HOME'') ''/.local/share/applications'',
              Some ''/usr/share/applications'',
              Some ''/usr/local/share/applications'']))
       (\<lambda>directories.
          bind_js (map_js (readdirSync sys) directories)
            (\<lambda>listings.
               Inr (replace_desktop program \<in>
                     set (map replace_desktop
                            (filter (\<lambda>file. endsWith file ''.desktop'') (concat listings))))))"

definition isMacInstalled :: "system \<Rightarrow> string \<Rightarrow> js_error + bool" where
  "isMacInstalled sys program =
     bind_js
       (exec sys (''osascript -e 'id of application '' @ [CHR 0x22] @ program @ [CHR 0x22] @
                  ''' 2>&1>/dev/null''))
       (\<lambda>v. Inr (Boolean v))"

definition isWindowsInstalled :: "system \<Rightarrow> string \<Rightarrow> js_error + bool" where
  "isWindowsInstalled sys program =
     bind_js
       (map_js (\<lambda>attempt. bind_js (exec sys attempt) (\<lambda>v. Inr (Boolean v)))
          [''where '' @ program,
           ''where '' @ program @ ''.exe'',
           ''where.exe '' @ program,
           ''where.exe '' @ program @ ''.exe''])
       (\<lambda>results. Inr (True \<in> set results))"

definition isInstalled :: "system \<Rightarrow> string \<Rightarrow> js_error + bool" where
  "isInstalled sys program =
     some_js (\<lambda>check. check sys program)
       [isUnixInstalled, isMacInstalled, isWindowsInstalled, isDotDesktopInstalled]"

text \<open>
  The choices \<open>promptForPlatform\<close> collects before it asks. A condition
  \<open>a && f()\<close> calls \<open>f\<close> only when \<open>a\<close> holds.
\<close>

definition when_js :: "bool \<Rightarrow> js_error + bool \<Rightarrow> js_error + bool" where
  "when_js a m = (if a then m else Inr False)"

definition push_if :: "js_error + bool \<Rightarrow> string \<Rightarrow> string list \<Rightarrow> js_error + string list" where
  "push_if condition choice choices =
     bind_js condition (\<lambda>c. Inr (if c then choices @ [choice] else choices))"

definition promptForPlatform_choices :: "system \<Rightarrow> js_error + string list" where
  "promptForPlatform_choices sys =
     bind_js (push_if
        (when_js (platform sys = ''win32'')
           (bind_js
              (execPowerShell sys
                 (''$hyperv = Get-WindowsOptionalFeature -FeatureName Microsoft-Hyper-V-All -Online; '' @
                  ''$hyperv.State -eq '' @ [CHR 0x22] @ ''Enabled'' @ [CHR 0x22]))
              (\<lambda>v. Inr (Boolean v))))
        ''Hyper-V'' [])
     (\<lambda>c1. bind_js (push_if
        (when_js (platform sys = ''darwin'' \<or> platform sys = ''linux'') (isInstalled sys ''kvm''))
        ''KVM'' c1)
     (\<lambda>c2. bind_js (push_if
        (when_js (platform sys = ''darwin'') (isInstalled sys ''Parallels Desktop.app''))
        ''Parallels'' c2)
     (\<lambda>c3. bind_js (push_if (isInstalled sys ''virtualbox'') ''VirtualBox'' c3)
     (\<lambda>c4. bind_js (push_if
        (when_js (platform sys = ''darwin'') (isInstalled sys ''VMware Fusion.app''))
        ''VMWare Fusion'' c4)
     (\<lambda>c5. push_if
        (when_js (platform sys \<noteq> ''darwin'') (isInstalled sys ''vmware''))
        ''VMWare Workstation'' c5)))))"

text \<open>A command line succeeds when the shell of \<open>options\<close> ends it with status 0.\<close>

definition succeeds :: "system \<Rightarrow> string \<Rightarrow> bool" where
  "succeeds sys command = (fst (run_command sys (shell options) command) = 0)"

section \<open>Notions used in the statements\<close>

text \<open>
  Every check the script makes before it acts reports that nothing is left to do:
  neither feature is Disabled, both files are in place, the appx package is installed.
\<close>

definition satisfied :: "host \<Rightarrow> bool" where
  "satisfied h =
     (feature_state_of Microsoft_Windows_Subsystem_Linux h \<noteq> Disabled \<and>
      feature_state_of VirtualMachinePlatform h \<noteq> Disabled \<and>
      Test_Path UBUNTU2004_appx h \<and>
      ubuntu_appx_package h \<and>
      Test_Path docker_desktop_installer_exe h)"

section \<open>Concrete machines\<close>

text \<open>No marker is set and the management agent is not installed.\<close>

definition no_signal :: reboot_signals where
  "no_signal = \<lparr>component_servicing = False, update_reboot_required = False,
                 pending_file_rename = False, ccm = AgentUnavailable\<rparr>"

text \<open>A machine nothing has been done to yet, on which no update asks for a restart.\<close>

definition fresh_host :: host where
  "fresh_host =
     \<lparr>subsystem_linux = Disabled, virtual_machine_platform = Disabled,
      ubuntu_image_file = False, ubuntu_appx_package = False, docker_installer_file = False,
      username = ''dev'', update_passes = 0, signals_after = (\<lambda>n. no_signal)\<rparr>"

definition fresh_state :: wf_state where
  "fresh_state = \<lparr>machine = fresh_host, rebootrequired = 0\<rparr>"

text \<open>The same machine, but every update pass leaves the update marker set.\<close>

definition restless_host :: host where
  "restless_host =
     fresh_host\<lparr>signals_after := (\<lambda>n. no_signal\<lparr>update_reboot_required := True\<rparr>)\<rparr>"

text \<open>The fresh machine after the script has run on it to the end.\<close>

definition provisioned_host :: host where
  "provisioned_host = machine (snd (quickstart SharedFlag fresh_host))"

text \<open>
  A Linux machine on which every command line ends with status 1: none of the
  programs asked for is installed, and \<open>osascript\<close> and \<open>where\<close> do not exist.
\<close>

definition linux_without_programs :: system where
  "linux_without_programs =
     \<lparr>run_command = (\<lambda>sh command. (1, [])),
      environment = (\<lambda>name. if name = ''HOME'' then Some ''/home/dev'' else None),
      directory = (\<lambda>path. if path = ''/usr/share/applications'' then Some [] else None),
      platform = ''linux''\<rparr>"

text \<open>
  A machine on which every command line ends with status 0, and VirtualBox has a
  desktop entry.
\<close>

definition agreeable_system :: system where
  "agreeable_system =
     \<lparr>run_command = (\<lambda>sh command. (0, ''/usr/bin/virtualbox'')),
      environment = (\<lambda>name. None),
      directory =
        (\<lambda>path. if path = ''/usr/share/applications''
                then Some [''firefox.desktop'', ''virtualbox.desktop'', ''README'']
                else if path = ''/usr/local/share/applications'' then Some []
                else None),
      platform = ''linux''\<rparr>"

section \<open>The pending-reboot probe\<close>

lemma Test_PendingReboot_range: "Test_PendingReboot x = 0 \<or> Test_PendingReboot x = 1"
  by (simp add: Test_PendingReboot_def split: sum.splits option.splits)

text \<open>
  Claim C3. Test-PendingReboot is conservative: whenever one of its four signals is
  set (the component-servicing marker, the update marker, the pending-file-rename
  marker, or a status of the management agent whose RebootPending is true), it
  returns 1, whatever the other three are.
\<close>

theorem pending_reboot_conservative:
  "component_servicing s \<or> update_reboot_required s \<or> pending_file_rename s \<or>
     ccm s = QueryReturns (Some True)
   \<Longrightarrow> Test_PendingReboot s = 1"
  by (auto simp: Test_PendingReboot_def DetermineIfRebootPending_def)

theorem pending_reboot_conservative_witness:
  "ccm \<lparr>component_servicing = False, update_reboot_required = False,
         pending_file_rename = False, ccm = QueryReturns (Some True)\<rparr> = QueryReturns (Some True)
   \<and> Test_PendingReboot \<lparr>component_servicing = False, update_reboot_required = False,
         pending_file_rename = False, ccm = QueryReturns (Some True)\<rparr> = 1
   \<and> Test_PendingReboot \<lparr>component_servicing = False, update_reboot_required = True,
         pending_file_rename = False, ccm = AgentUnavailable\<rparr> = 1"
  using pending_reboot_conservative
          [of "\<lparr>component_servicing = False, update_reboot_required = False,
                pending_file_rename = False, ccm = QueryReturns (Some True)\<rparr>"]
        pending_reboot_conservative
          [of "\<lparr>component_servicing = False, update_reboot_required = True,
                pending_file_rename = False, ccm = AgentUnavailable\<rparr>"]
  by simp

text \<open>
  Claim C6. When the management agent is not there, or its query throws, the
  exception stays inside Test-PendingReboot: the function still returns, and what it
  returns is decided by the other three signals alone.
\<close>

theorem management_agent_failure_is_no_signal:
  "ccm s = AgentUnavailable \<or> ccm s = QueryThrows \<Longrightarrow>
     (\<exists>e. DetermineIfRebootPending (ccm s) = Inl e) \<and>
     Test_PendingReboot s =
       (if component_servicing s \<or> update_reboot_required s \<or> pending_file_rename s
        then 1 else 0)"
  by (auto simp: Test_PendingReboot_def DetermineIfRebootPending_def)

theorem management_agent_failure_is_no_signal_witness:
  "Test_PendingReboot \<lparr>component_servicing = False, update_reboot_required = False,
         pending_file_rename = False, ccm = AgentUnavailable\<rparr> = 0
   \<and> Test_PendingReboot \<lparr>component_servicing = False, update_reboot_required = False,
         pending_file_rename = True, ccm = QueryThrows\<rparr> = 1"
  using management_agent_failure_is_no_signal
          [of "\<lparr>component_servicing = False, update_reboot_required = False,
                pending_file_rename = False, ccm = AgentUnavailable\<rparr>"]
        management_agent_failure_is_no_signal
          [of "\<lparr>component_servicing = False, update_reboot_required = False,
                pending_file_rename = True, ccm = QueryThrows\<rparr>"]
  by simp

section \<open>Single steps of the workflow\<close>

lemma fst_cmd [simp]: "fst (cmd e r) = fst r @ [e]"
  by (simp add: cmd_def)

lemma machine_cmd [simp]: "machine (snd (cmd e r)) = effect e (machine (snd r))"
  by (simp add: cmd_def)

lemma flag_cmd [simp]: "rebootrequired (snd (cmd e r)) = rebootrequired (snd r)"
  by (simp add: cmd_def)

lemma fst_assign [simp]: "fst (assign_in_function sc v r) = fst r"
  by (cases sc) (simp_all add: assign_in_function_def)

lemma machine_assign [simp]: "machine (snd (assign_in_function sc v r)) = machine (snd r)"
  by (cases sc) (simp_all add: assign_in_function_def)

lemma flag_assign [simp]:
  "rebootrequired (snd (assign_in_function sc v r)) =
     (case sc of SharedFlag \<Rightarrow> v | FunctionLocal \<Rightarrow> rebootrequired (snd r))"
  by (cases sc) (simp_all add: assign_in_function_def)

lemma settle_not_Disabled: "st \<noteq> Disabled \<Longrightarrow> settle st \<noteq> Disabled"
  by (cases st) (simp_all add: settle_def)

lemma settle_Disabled [simp]: "settle Disabled = Disabled"
  by (simp add: settle_def)

lemmas function_defs =
  EnsureWindowsUpdated_def EnsureLinuxSubsystemEnabled_def
  EnsureVirtualMachinePlatformEnabled_def EnsureUbuntuAPPXInstalled_def SetupUbuntuWSL_def
  EnsureDockerDesktopInstalled_def EnableWinRM_def RunPlaybook_def

lemmas run_defs =
  quickstart_def job_def Provision_Windows_WSL_Ansible_def execute_def
  function_defs cmd_def assign_in_function_def Let_def commands_def commands_of_step_def
  fresh_host_def restless_host_def no_signal_def fresh_state_def probe_def
  Test_PendingReboot_def DetermineIfRebootPending_def feature_state_of_def Test_Path_def
  settle_def restarts_def

lemma length_workflow: "length Provision_Windows_WSL_Ansible = 15"
  by (simp add: Provision_Windows_WSL_Ansible_def)

lemma provisioned_host_eq:
  "provisioned_host =
     \<lparr>subsystem_linux = Enabled, virtual_machine_platform = Enabled,
      ubuntu_image_file = True, ubuntu_appx_package = True, docker_installer_file = True,
      username = ''dev'', update_passes = 3, signals_after = (\<lambda>n. no_signal)\<rparr>"
  by (simp add: provisioned_host_def run_defs)

lemma skip_feature:
  "feature_state_of Microsoft_Windows_Subsystem_Linux (machine s) \<noteq> Disabled \<Longrightarrow>
     execute sc Call_EnsureLinuxSubsystemEnabled s = ([Write_Host], s)"
  "feature_state_of VirtualMachinePlatform (machine s) \<noteq> Disabled \<Longrightarrow>
     execute sc Call_EnsureVirtualMachinePlatformEnabled s = ([Write_Host], s)"
  by (simp_all add: execute_def function_defs prod_eq_iff)

lemma skip_ubuntu:
  "Test_Path UBUNTU2004_appx (machine s) \<Longrightarrow> ubuntu_appx_package (machine s) \<Longrightarrow>
     execute sc Call_EnsureUbuntuAPPXInstalled s = ([Write_Host, Write_Host], s)"
  by (simp add: execute_def function_defs prod_eq_iff Let_def)

lemma docker_again:
  "Test_Path docker_desktop_installer_exe (machine t) \<Longrightarrow>
     fst (execute sc Call_EnsureDockerDesktopInstalled t) =
       [Write_Host, Start_Process_docker_installer, Write_Host, Docker_Desktop_exe,
        Start_Sleep 30, Write_Host]"
  by (simp add: execute_def function_defs Let_def)

lemma update_step_commands:
  "fst (execute sc Call_EnsureWindowsUpdated t) =
     (if Test_PendingReboot (probe (effect Get_WUInstall (machine t))) = 1
      then [Write_Host, Get_WUInstall, Restart_Computer]
      else [Write_Host, Get_WUInstall])"
  by (simp add: execute_def function_defs Let_def)

text \<open>
  Claim C7, as the script has it. The three steps that check before they act do
  nothing to the machine when their checks are satisfied:
  EnsureLinuxSubsystemEnabled and EnsureVirtualMachinePlatformEnabled when the state
  of the feature is not Disabled, EnsureUbuntuAPPXInstalled when the image file is
  there and the appx package is installed. They only write a message, and the state
  is the one they started from. The other steps have no check.
\<close>

theorem guarded_steps_skip:
  "(feature_state_of Microsoft_Windows_Subsystem_Linux (machine s) \<noteq> Disabled \<longrightarrow>
      filter mutating (fst (execute sc Call_EnsureLinuxSubsystemEnabled s)) = [] \<and>
      snd (execute sc Call_EnsureLinuxSubsystemEnabled s) = s) \<and>
   (feature_state_of VirtualMachinePlatform (machine s) \<noteq> Disabled \<longrightarrow>
      filter mutating (fst (execute sc Call_EnsureVirtualMachinePlatformEnabled s)) = [] \<and>
      snd (execute sc Call_EnsureVirtualMachinePlatformEnabled s) = s) \<and>
   (Test_Path UBUNTU2004_appx (machine s) \<and> ubuntu_appx_package (machine s) \<longrightarrow>
      filter mutating (fst (execute sc Call_EnsureUbuntuAPPXInstalled s)) = [] \<and>
      snd (execute sc Call_EnsureUbuntuAPPXInstalled s) = s)"
  by (simp add: skip_feature skip_ubuntu)

theorem guarded_steps_skip_witness:
  "feature_state_of Microsoft_Windows_Subsystem_Linux provisioned_host = Enabled \<and>
   filter mutating
     (fst (execute SharedFlag Call_EnsureLinuxSubsystemEnabled
        \<lparr>machine = provisioned_host, rebootrequired = 0\<rparr>)) = [] \<and>
   Test_Path UBUNTU2004_appx provisioned_host \<and> ubuntu_appx_package provisioned_host \<and>
   snd (execute SharedFlag Call_EnsureUbuntuAPPXInstalled
        \<lparr>machine = provisioned_host, rebootrequired = 0\<rparr>) =
     \<lparr>machine = provisioned_host, rebootrequired = 0\<rparr>"
  using guarded_steps_skip [of "\<lparr>machine = provisioned_host, rebootrequired = 0\<rparr>" SharedFlag]
  by (simp add: provisioned_host_eq feature_state_of_def Test_Path_def)

text \<open>
  Claim C7 as stated fails. On the machine the script has already provisioned,
  SetupUbuntuWSL and EnsureDockerDesktopInstalled consult nothing and run their
  commands again; and EnsureUbuntuAPPXInstalled downloads the image when the file
  is gone although the appx package is installed.
\<close>

theorem unguarded_steps_act_on_a_provisioned_host:
  "filter mutating
     (fst (execute SharedFlag Call_SetupUbuntuWSL \<lparr>machine = provisioned_host, rebootrequired = 0\<rparr>)) =
     [Start_Process_ubuntu ''install --root'',
      Start_Process_ubuntu
        ''run adduser dev --gecos 'First,Last,RoomNumber,WorkPhone,HomePhone' --disabled-password'',
      Start_Process_ubuntu ''run usermod -aG sudo dev'',
      Start_Process_ubuntu (''run echo '' @ [CHR 0x27] @ ''dev ALL=(ALL) NOPASSWD: ALL' >> /etc/sudoers''),
      Start_Process_ubuntu ''config --default-user dev''] \<and>
   filter mutating
     (fst (execute SharedFlag Call_EnsureDockerDesktopInstalled
        \<lparr>machine = provisioned_host, rebootrequired = 0\<rparr>)) =
     [Start_Process_docker_installer, Docker_Desktop_exe] \<and>
   ubuntu_appx_package (provisioned_host\<lparr>ubuntu_image_file := False\<rparr>) \<and>
   filter mutating
     (fst (execute SharedFlag Call_EnsureUbuntuAPPXInstalled
        \<lparr>machine = provisioned_host\<lparr>ubuntu_image_file := False\<rparr>, rebootrequired = 0\<rparr>)) =
     [Start_BitsTransfer UBUNTU2004_appx]"
  by (simp add: provisioned_host_eq) (simp add: run_defs)

text \<open>
  Claim C8. One execution of a step issues at most one Restart-Computer, whatever
  the step, the state it starts from and the reading of the flag.
\<close>

theorem at_most_one_restart_per_step:
  "restarts (fst (execute sc a s)) \<le> 1"
  by (cases a) (simp_all add: execute_def function_defs restarts_def Let_def)

theorem at_most_one_restart_per_step_witness:
  "restarts (fst (execute SharedFlag Call_EnsureWindowsUpdated
       \<lparr>machine = restless_host, rebootrequired = 0\<rparr>)) = 1 \<and>
   restarts (fst (execute SharedFlag Call_EnsureWindowsUpdated
       \<lparr>machine = restless_host, rebootrequired = 0\<rparr>)) \<le> 1"
  using at_most_one_restart_per_step
          [of SharedFlag Call_EnsureWindowsUpdated "\<lparr>machine = restless_host, rebootrequired = 0\<rparr>"]
  by (simp add: run_defs)

section \<open>The workflow job\<close>

lemma snd_job_steps_Cons:
  "snd (job_steps sc k (a # as) s) = snd (job_steps sc (Suc k) as (snd (execute sc a s)))"
  by (simp add: split_beta)

lemma fst_job_steps_Cons:
  "fst (job_steps sc k (a # as) s) =
     (k, fst (execute sc a s)) # fst (job_steps sc (Suc k) as (snd (execute sc a s)))"
  by (simp add: split_beta)

lemma snd_job_steps_append:
  "snd (job_steps sc k (as @ bs) s) =
     snd (job_steps sc (k + length as) bs (snd (job_steps sc k as s)))"
  by (induction as arbitrary: k s) (simp_all add: split_beta)

lemma job_steps_indices:
  "map fst (fst (job_steps sc k as s)) = [k ..< k + length as]"
proof (induction as arbitrary: k s)
  case Nil
  show ?case by simp
next
  case (Cons a as)
  have "map fst (fst (job_steps sc (Suc k) as (snd (execute sc a s)))) = [Suc k ..< Suc k + length as]"
    by (rule Cons.IH)
  moreover have "[k ..< k + length (a # as)] = k # [Suc k ..< Suc k + length as]"
    by (simp del: upt_Suc add: upt_conv_Cons)
  ultimately show ?case
    by (simp del: upt_Suc add: split_beta)
qed

text \<open>The commands of step \<open>i\<close> of a job are those of its statement, run in the state the steps before it left.\<close>

lemma job_steps_later: "i < k \<Longrightarrow> filter (\<lambda>p. fst p = i) (fst (job_steps sc k as s)) = []"
proof -
  assume "i < k"
  then have "i \<notin> set (map fst (fst (job_steps sc k as s)))"
    by (simp add: job_steps_indices)
  then show ?thesis
    by (auto simp: filter_empty_conv)
qed

lemma commands_of_step_job:
  "i < length as \<Longrightarrow>
     commands_of_step (k + i) (fst (job_steps sc k as s)) =
       fst (execute sc (as ! i) (snd (job_steps sc k (take i as) s)))"
proof (induction as arbitrary: k i s)
  case Nil
  then show ?case by simp
next
  case (Cons a as)
  show ?case
  proof (cases i)
    case 0
    then show ?thesis
      by (simp add: commands_of_step_def fst_job_steps_Cons job_steps_later del: job_steps.simps(2))
  next
    case (Suc j)
    with Cons.prems have "j < length as" by simp
    from Cons.IH [OF this, of "Suc k" "snd (execute sc a s)"]
    show ?thesis using Suc
      by (simp add: commands_of_step_def fst_job_steps_Cons snd_job_steps_Cons del: job_steps.simps(2))
  qed
qed

lemma step_of_job:
  assumes "i < length Provision_Windows_WSL_Ansible"
  shows "commands_of_step i (fst (job sc s)) =
     fst (execute sc (Provision_Windows_WSL_Ansible ! i)
            (snd (job_steps sc 0 (take i Provision_Windows_WSL_Ansible) s)))"
  using commands_of_step_job [OF assms, of 0 sc s]
  by (simp add: job_def)

lemma job_steps_preserves:
  assumes "\<And>b t. b \<in> set as \<Longrightarrow> P t \<Longrightarrow> P (snd (execute sc b t))" and "P s"
  shows "P (snd (job_steps sc k as s))"
  using assms
proof (induction as arbitrary: k s)
  case Nil
  then show ?case by simp
next
  case (Cons a as)
  have "P (snd (execute sc a s))"
    using Cons.prems by simp
  then have "P (snd (job_steps sc (Suc k) as (snd (execute sc a s))))"
    using Cons.prems by (intro Cons.IH) simp_all
  then show ?case
    by (simp add: snd_job_steps_Cons del: job_steps.simps(2))
qed

lemma job_steps_establishes:
  assumes "\<And>t. P (snd (execute sc a t))"
    and "\<And>b t. P t \<Longrightarrow> P (snd (execute sc b t))"
    and "a \<in> set as"
  shows "P (snd (job_steps sc k as s))"
  using assms(3)
proof (induction as arbitrary: k s)
  case Nil
  then show ?case by simp
next
  case (Cons b as)
  show ?case
  proof (cases "a = b")
    case True
    have "P (snd (job_steps sc (Suc k) as (snd (execute sc a s))))"
      by (rule job_steps_preserves) (simp_all add: assms)
    with True show ?thesis
      by (simp add: snd_job_steps_Cons del: job_steps.simps(2))
  next
    case False
    with Cons.prems have "a \<in> set as" by simp
    from Cons.IH [OF this] show ?thesis
      by (simp add: snd_job_steps_Cons del: job_steps.simps(2))
  qed
qed

section \<open>Resuming from a checkpoint\<close>










section \<open>Running the script a second time\<close>

lemma keeps_subsystem_linux:
  "subsystem_linux (machine t) \<noteq> Disabled \<Longrightarrow>
     subsystem_linux (machine (snd (execute sc b t))) \<noteq> Disabled"
  by (cases b)
     (simp_all add: execute_def function_defs Let_def feature_state_of_def Test_Path_def
        settle_not_Disabled)

lemma keeps_virtual_machine_platform:
  "virtual_machine_platform (machine t) \<noteq> Disabled \<Longrightarrow>
     virtual_machine_platform (machine (snd (execute sc b t))) \<noteq> Disabled"
  by (cases b)
     (simp_all add: execute_def function_defs Let_def feature_state_of_def Test_Path_def
        settle_not_Disabled)

lemma keeps_ubuntu_image_file:
  "ubuntu_image_file (machine t) \<Longrightarrow> ubuntu_image_file (machine (snd (execute sc b t)))"
  by (cases b) (simp_all add: execute_def function_defs Let_def feature_state_of_def Test_Path_def)

lemma keeps_ubuntu_appx_package:
  "ubuntu_appx_package (machine t) \<Longrightarrow> ubuntu_appx_package (machine (snd (execute sc b t)))"
  by (cases b) (simp_all add: execute_def function_defs Let_def feature_state_of_def Test_Path_def)

lemma keeps_docker_installer_file:
  "docker_installer_file (machine t) \<Longrightarrow> docker_installer_file (machine (snd (execute sc b t)))"
  by (cases b) (simp_all add: execute_def function_defs Let_def feature_state_of_def Test_Path_def)

lemma keeps_satisfied:
  "satisfied (machine t) \<Longrightarrow> satisfied (machine (snd (execute sc b t)))"
  unfolding satisfied_def feature_state_of_def Test_Path_def
  using keeps_subsystem_linux keeps_virtual_machine_platform keeps_ubuntu_image_file
    keeps_ubuntu_appx_package keeps_docker_installer_file
  by simp

lemma keeps_flag_0:
  "satisfied (machine t) \<Longrightarrow> rebootrequired t = 0 \<Longrightarrow> rebootrequired (snd (execute sc b t)) = 0"
  using Test_PendingReboot_range [of "probe (effect Get_WUInstall (machine t))"]
  by (cases b; cases sc)
     (auto simp: execute_def function_defs Let_def satisfied_def)

lemma makes_subsystem_linux:
  "subsystem_linux (machine (snd (execute sc Call_EnsureLinuxSubsystemEnabled t))) \<noteq> Disabled"
  by (simp add: execute_def function_defs feature_state_of_def)

lemma makes_virtual_machine_platform:
  "virtual_machine_platform (machine (snd (execute sc Call_EnsureVirtualMachinePlatformEnabled t))) \<noteq> Disabled"
  by (simp add: execute_def function_defs feature_state_of_def)

lemma makes_ubuntu:
  "ubuntu_image_file (machine (snd (execute sc Call_EnsureUbuntuAPPXInstalled t)))"
  "ubuntu_appx_package (machine (snd (execute sc Call_EnsureUbuntuAPPXInstalled t)))"
  by (simp_all add: execute_def function_defs Test_Path_def Let_def)

lemma makes_docker_installer_file:
  "docker_installer_file (machine (snd (execute sc Call_EnsureDockerDesktopInstalled t)))"
  by (simp add: execute_def function_defs Test_Path_def Let_def)

text \<open>Whatever the machine was, the checks of the script are satisfied once the job has run.\<close>

lemma job_satisfies: "satisfied (machine (snd (job sc s)))"
proof -
  let ?W = Provision_Windows_WSL_Ansible
  let ?t = "snd (job_steps sc 0 ?W s)"
  have "subsystem_linux (machine ?t) \<noteq> Disabled"
    by (rule job_steps_establishes [where a = Call_EnsureLinuxSubsystemEnabled])
       (simp_all add: makes_subsystem_linux keeps_subsystem_linux Provision_Windows_WSL_Ansible_def)
  moreover have "virtual_machine_platform (machine ?t) \<noteq> Disabled"
    by (rule job_steps_establishes [where a = Call_EnsureVirtualMachinePlatformEnabled])
       (simp_all add: makes_virtual_machine_platform keeps_virtual_machine_platform
          Provision_Windows_WSL_Ansible_def)
  moreover have "ubuntu_image_file (machine ?t)"
    by (rule job_steps_establishes [where a = Call_EnsureUbuntuAPPXInstalled])
       (simp_all add: makes_ubuntu keeps_ubuntu_image_file Provision_Windows_WSL_Ansible_def)
  moreover have "ubuntu_appx_package (machine ?t)"
    by (rule job_steps_establishes [where a = Call_EnsureUbuntuAPPXInstalled])
       (simp_all add: makes_ubuntu keeps_ubuntu_appx_package Provision_Windows_WSL_Ansible_def)
  moreover have "docker_installer_file (machine ?t)"
    by (rule job_steps_establishes [where a = Call_EnsureDockerDesktopInstalled])
       (simp_all add: makes_docker_installer_file keeps_docker_installer_file
          Provision_Windows_WSL_Ansible_def)
  ultimately show ?thesis
    by (simp add: job_def satisfied_def feature_state_of_def Test_Path_def)
qed

lemma step_of_second_run:
  assumes "satisfied h" and "i < length Provision_Windows_WSL_Ansible"
  shows "\<exists>t. satisfied (machine t) \<and> rebootrequired t = 0 \<and>
     commands_of_step i (fst (quickstart sc h)) =
       fst (execute sc (Provision_Windows_WSL_Ansible ! i) t)"
proof -
  let ?s = "\<lparr>machine = h, rebootrequired = 0\<rparr>"
  let ?t = "snd (job_steps sc 0 (take i Provision_Windows_WSL_Ansible) ?s)"
  have "satisfied (machine ?t) \<and> rebootrequired ?t = 0"
    by (rule job_steps_preserves [where P = "\<lambda>t. satisfied (machine t) \<and> rebootrequired t = 0"])
       (simp_all add: keeps_satisfied keeps_flag_0 assms)
  moreover have "commands_of_step i (fst (quickstart sc h)) =
      fst (execute sc (Provision_Windows_WSL_Ansible ! i) ?t)"
    using step_of_job [OF assms(2)] by (simp add: quickstart_def)
  ultimately show ?thesis by blast
qed

text \<open>
  Claim C2, as the script has it. After the script has run to the end on a machine,
  all its checks are satisfied, and when it runs again on the machine as it was left
  the steps that check before they act do nothing to it:
  EnsureLinuxSubsystemEnabled (step 6), EnsureVirtualMachinePlatformEnabled (step 7)
  and EnsureUbuntuAPPXInstalled (step 9) only write messages, the restart guarded by
  the flag (step 8) is not issued, and the Docker installer is not downloaded again.
  The steps without a check act again: the Docker installer runs and Docker Desktop
  is started (step 11), and the machine restarts (step 12).
\<close>

theorem second_run_skips_guarded_steps:
  "satisfied (machine (snd (quickstart sc h))) \<and>
   filter mutating (commands_of_step 6 (fst (quickstart sc (machine (snd (quickstart sc h)))))) = [] \<and>
   filter mutating (commands_of_step 7 (fst (quickstart sc (machine (snd (quickstart sc h)))))) = [] \<and>
   commands_of_step 8 (fst (quickstart sc (machine (snd (quickstart sc h))))) = [] \<and>
   filter mutating (commands_of_step 9 (fst (quickstart sc (machine (snd (quickstart sc h)))))) = [] \<and>
   filter mutating (commands_of_step 11 (fst (quickstart sc (machine (snd (quickstart sc h)))))) =
     [Start_Process_docker_installer, Docker_Desktop_exe] \<and>
   commands_of_step 12 (fst (quickstart sc (machine (snd (quickstart sc h))))) = [Restart_Computer]"
proof -
  let ?h = "machine (snd (quickstart sc h))"
  let ?W = Provision_Windows_WSL_Ansible
  have sat: "satisfied ?h"
    by (simp add: quickstart_def job_satisfies)
  have step: "\<And>i. i < length ?W \<Longrightarrow>
      \<exists>t. satisfied (machine t) \<and> rebootrequired t = 0 \<and>
        commands_of_step i (fst (quickstart sc ?h)) = fst (execute sc (?W ! i) t)"
    by (rule step_of_second_run [OF sat])
  have "filter mutating (commands_of_step 6 (fst (quickstart sc ?h))) = []"
    using step [of 6]
    by (auto simp: Provision_Windows_WSL_Ansible_def satisfied_def skip_feature)
  moreover have "filter mutating (commands_of_step 7 (fst (quickstart sc ?h))) = []"
    using step [of 7]
    by (auto simp: Provision_Windows_WSL_Ansible_def satisfied_def skip_feature)
  moreover have "commands_of_step 8 (fst (quickstart sc ?h)) = []"
    using step [of 8]
    by (auto simp: Provision_Windows_WSL_Ansible_def execute_def)
  moreover have "filter mutating (commands_of_step 9 (fst (quickstart sc ?h))) = []"
    using step [of 9]
    by (auto simp: Provision_Windows_WSL_Ansible_def satisfied_def skip_ubuntu)
  moreover have "filter mutating (commands_of_step 11 (fst (quickstart sc ?h))) =
      [Start_Process_docker_installer, Docker_Desktop_exe]"
    using step [of 11]
    by (auto simp: Provision_Windows_WSL_Ansible_def satisfied_def docker_again)
  moreover have "commands_of_step 12 (fst (quickstart sc ?h)) = [Restart_Computer]"
    using step [of 12]
    by (auto simp: Provision_Windows_WSL_Ansible_def execute_def)
  ultimately show ?thesis
    using sat by simp
qed

theorem second_run_skips_guarded_steps_witness:
  "satisfied provisioned_host \<and>
   filter mutating (commands_of_step 6 (fst (quickstart SharedFlag provisioned_host))) = [] \<and>
   filter mutating (commands_of_step 9 (fst (quickstart SharedFlag provisioned_host))) = [] \<and>
   commands_of_step 12 (fst (quickstart SharedFlag provisioned_host)) = [Restart_Computer]"
  using second_run_skips_guarded_steps [of SharedFlag fresh_host]
  by (simp add: provisioned_host_def)

text \<open>
  Claim C2 as stated fails. The second run on the provisioned machine, left as the
  first run left it, installs the package provider and the module again, runs three
  update passes, configures WinRM, sets up the Ubuntu user, runs the Docker installer,
  restarts the machine and runs the playbook. These are its commands other than
  messages and waiting, step by step.
\<close>

theorem second_run_acts_again:
  "map (\<lambda>p. (fst p, filter mutating (snd p))) (fst (quickstart SharedFlag provisioned_host)) =
     [(0, [Install_PackageProvider]), (1, [Install_Module]),
      (2, [Get_WUInstall]), (3, [Get_WUInstall]), (4, [Get_WUInstall]),
      (5, [DownloadFile_ConfigureRemotingForAnsible, Run_ConfigureRemotingForAnsible]),
      (6, []), (7, []), (8, []), (9, []),
      (10, [Start_Process_ubuntu ''install --root'',
            Start_Process_ubuntu
              ''run adduser dev --gecos 'First,Last,RoomNumber,WorkPhone,HomePhone' --disabled-password'',
            Start_Process_ubuntu ''run usermod -aG sudo dev'',
            Start_Process_ubuntu (''run echo '' @ [CHR 0x27] @ ''dev ALL=(ALL) NOPASSWD: ALL' >> /etc/sudoers''),
            Start_Process_ubuntu ''config --default-user dev'']),
      (11, [Start_Process_docker_installer, Docker_Desktop_exe]),
      (12, [Restart_Computer]),
      (13, [Start_Process_ubuntu
              (''run curl -sSL https://gitlab.com/megabyte-labs/gas-station/-/raw/master/scripts/quickstart.sh'' @
               '' > quickstart.sh && bash quickstart.sh''),
            Start_Process_ubuntu ''run bash ~/Playbooks/.cache/ansible-playbook-continue-command.sh'']),
      (14, [])]"
  by (simp add: provisioned_host_eq) (simp add: run_defs)

text \<open>
  The second run is the same under the scoping of PowerShell, and so is the machine
  the first run leaves.
\<close>

lemma second_run_in_function_scope:
  "machine (snd (quickstart FunctionLocal fresh_host)) = provisioned_host \<and>
   map (\<lambda>p. (fst p, filter mutating (snd p))) (fst (quickstart FunctionLocal provisioned_host)) =
     map (\<lambda>p. (fst p, filter mutating (snd p))) (fst (quickstart SharedFlag provisioned_host))"
  by (simp add: provisioned_host_eq) (simp add: run_defs)


section \<open>The three update passes\<close>

lemma count_updates_execute:
  "length (filter (\<lambda>e. e = Get_WUInstall) (fst (execute sc a s))) =
     (if a = Call_EnsureWindowsUpdated then 1 else 0)"
  by (cases a) (simp_all add: execute_def function_defs Let_def)

lemma count_updates_job:
  "length (filter (\<lambda>e. e = Get_WUInstall) (commands (fst (job_steps sc k as s)))) =
     length (filter (\<lambda>a. a = Call_EnsureWindowsUpdated) as)"
proof (induction as arbitrary: k s)
  case Nil
  show ?case by (simp add: commands_def)
next
  case (Cons a as)
  have "commands (fst (job_steps sc k (a # as) s)) =
      fst (execute sc a s) @ commands (fst (job_steps sc (Suc k) as (snd (execute sc a s))))"
    by (simp add: commands_def split_beta)
  then show ?case
    using Cons.IH [of "Suc k" "snd (execute sc a s)"] count_updates_execute [of sc a s]
    by simp
qed

text \<open>
  Claim C4, as the script has it. A run of the workflow makes exactly three update
  passes, a number fixed in the workflow body. Each call of EnsureWindowsUpdated
  writes a message, runs Get-WUInstall, and restarts the machine exactly when the
  probe then reports a pending reboot; it has no other outcome. After the third call
  the workflow goes on to EnableWinRM (step 5) and executes every later step,
  whether or not a reboot is still pending.
\<close>

theorem update_step_runs_three_times_then_goes_on:
  "length (filter (\<lambda>e. e = Get_WUInstall) (commands (fst (quickstart sc h)))) = 3 \<and>
   fst (execute sc Call_EnsureWindowsUpdated t) =
     (if Test_PendingReboot (probe (effect Get_WUInstall (machine t))) = 1
      then [Write_Host, Get_WUInstall, Restart_Computer]
      else [Write_Host, Get_WUInstall]) \<and>
   commands_of_step 5 (fst (quickstart sc h)) =
     [DownloadFile_ConfigureRemotingForAnsible, Run_ConfigureRemotingForAnsible] \<and>
   map fst (fst (quickstart sc h)) = [0 ..< length Provision_Windows_WSL_Ansible]"
proof -
  have "length (filter (\<lambda>e. e = Get_WUInstall) (commands (fst (quickstart sc h)))) = 3"
    by (simp add: quickstart_def job_def count_updates_job)
       (simp add: Provision_Windows_WSL_Ansible_def)
  moreover have "commands_of_step 5 (fst (quickstart sc h)) =
      [DownloadFile_ConfigureRemotingForAnsible, Run_ConfigureRemotingForAnsible]"
    using step_of_job [of 5 sc]
    by (simp add: quickstart_def length_workflow)
       (simp add: Provision_Windows_WSL_Ansible_def execute_def EnableWinRM_def)
  moreover have "map fst (fst (quickstart sc h)) = [0 ..< length Provision_Windows_WSL_Ansible]"
    by (simp add: quickstart_def job_def job_steps_indices)
  ultimately show ?thesis
    using update_step_commands by simp
qed

theorem update_step_runs_three_times_then_goes_on_witness:
  "length (filter (\<lambda>e. e = Get_WUInstall) (commands (fst (quickstart SharedFlag fresh_host)))) = 3 \<and>
   fst (execute SharedFlag Call_EnsureWindowsUpdated fresh_state) = [Write_Host, Get_WUInstall] \<and>
   map fst (fst (quickstart SharedFlag fresh_host)) = [0, 1, 2, 3, 4, 5, 6, 7, 8, 9, 10, 11, 12, 13, 14]"
  using update_step_runs_three_times_then_goes_on [of SharedFlag fresh_host fresh_state]
  by (simp add: length_workflow upt_rec fresh_state_def fresh_host_def probe_def no_signal_def
        Test_PendingReboot_def DetermineIfRebootPending_def)

text \<open>
  Claim C4 as stated fails. On the machine where every update pass leaves the
  update marker set, each of the three calls restarts the machine; after the third
  the probe still reports a pending reboot, and the workflow goes on with EnableWinRM
  and runs to its last step. No step fails.
\<close>

theorem pending_after_third_update_goes_on:
  "commands_of_step 2 (fst (quickstart SharedFlag restless_host)) =
     [Write_Host, Get_WUInstall, Restart_Computer] \<and>
   commands_of_step 3 (fst (quickstart SharedFlag restless_host)) =
     [Write_Host, Get_WUInstall, Restart_Computer] \<and>
   commands_of_step 4 (fst (quickstart SharedFlag restless_host)) =
     [Write_Host, Get_WUInstall, Restart_Computer] \<and>
   commands_of_step 5 (fst (quickstart SharedFlag restless_host)) =
     [DownloadFile_ConfigureRemotingForAnsible, Run_ConfigureRemotingForAnsible] \<and>
   map fst (fst (quickstart SharedFlag restless_host)) =
     [0, 1, 2, 3, 4, 5, 6, 7, 8, 9, 10, 11, 12, 13, 14] \<and>
   Test_PendingReboot (probe (machine (snd (quickstart SharedFlag restless_host)))) = 1"
  by (simp add: run_defs)

text \<open>The three restarts and the steps after them are the same under the scoping of PowerShell.\<close>

lemma pending_updates_in_function_scope:
  "commands_of_step 4 (fst (quickstart FunctionLocal restless_host)) =
     [Write_Host, Get_WUInstall, Restart_Computer] \<and>
   commands_of_step 5 (fst (quickstart FunctionLocal restless_host)) =
     [DownloadFile_ConfigureRemotingForAnsible, Run_ConfigureRemotingForAnsible] \<and>
   map fst (fst (quickstart FunctionLocal restless_host)) =
     [0, 1, 2, 3, 4, 5, 6, 7, 8, 9, 10, 11, 12, 13, 14]"
  by (simp add: run_defs)


section \<open>The restart after the feature steps\<close>

text \<open>
  Under the scoping of PowerShell no statement changes the variable that the
  workflow tests, so the restart of step 8 is never issued, on any machine.
\<close>

lemma flag_kept_in_function_scope:
  "rebootrequired (snd (execute FunctionLocal b t)) = rebootrequired t"
  by (cases b) (simp_all add: execute_def function_defs Let_def)

lemma flag_test_never_fires:
  "commands_of_step 8 (fst (quickstart FunctionLocal h)) = []"
proof -
  let ?W = Provision_Windows_WSL_Ansible
  let ?s = "\<lparr>machine = h, rebootrequired = 0\<rparr>"
  let ?t = "snd (job_steps FunctionLocal 0 (take 8 ?W) ?s)"
  have "rebootrequired ?t = 0"
    by (rule job_steps_preserves [where P = "\<lambda>t. rebootrequired t = 0"])
       (simp_all add: flag_kept_in_function_scope)
  moreover have "commands_of_step 8 (fst (quickstart FunctionLocal h)) =
      fst (execute FunctionLocal (?W ! 8) ?t)"
    using step_of_job [of 8 FunctionLocal ?s] by (simp add: quickstart_def length_workflow)
  moreover have "?W ! 8 = If_rebootrequired_Restart_Computer"
    by (simp add: Provision_Windows_WSL_Ansible_def)
  ultimately show ?thesis
    by (simp add: execute_def)
qed

text \<open>
  Were the flag shared between the functions and the workflow, as the script is
  written to have it, the restart of step 8 would be issued on the fresh machine, after
  both feature steps have acted.
\<close>

lemma shared_flag_would_restart:
  "commands_of_step 7 (fst (quickstart SharedFlag fresh_host)) =
     [Write_Host, Enable_WindowsOptionalFeature VirtualMachinePlatform] \<and>
   commands_of_step 8 (fst (quickstart SharedFlag fresh_host)) = [Restart_Computer]"
  by (simp add: run_defs)

text \<open>
  Claim C5 fails on the code. On the fresh machine, where the Linux-subsystem feature
  is Disabled, EnsureLinuxSubsystemEnabled enables the feature and assigns 1 to a
  variable of its own scope. The test of the workflow reads the variable of the
  workflow, which is not 1, and issues no restart: the workflow goes on to install
  the Ubuntu package without a restart since the feature was enabled. None of the
  first twelve steps restarts the machine; the first restart is the unconditional one
  of step 12.
\<close>

theorem subsystem_enabled_without_restart:
  "subsystem_linux fresh_host = Disabled \<and>
   commands_of_step 6 (fst (quickstart FunctionLocal fresh_host)) =
     [Write_Host, Enable_WindowsOptionalFeature Microsoft_Windows_Subsystem_Linux] \<and>
   commands_of_step 7 (fst (quickstart FunctionLocal fresh_host)) =
     [Write_Host, Enable_WindowsOptionalFeature VirtualMachinePlatform] \<and>
   commands_of_step 8 (fst (quickstart FunctionLocal fresh_host)) = [] \<and>
   commands_of_step 9 (fst (quickstart FunctionLocal fresh_host)) =
     [Write_Host, Start_BitsTransfer UBUNTU2004_appx, Write_Host, Add_AppxPackage] \<and>
   restarts (commands (take 12 (fst (quickstart FunctionLocal fresh_host)))) = 0 \<and>
   commands_of_step 12 (fst (quickstart FunctionLocal fresh_host)) = [Restart_Computer]"
  by (simp add: run_defs)

section \<open>The program detectors of the Vagrant prompt\<close>

lemma exec_never_a_value: "exec sys command = Inr v \<Longrightarrow> v = None"
  by (auto simp: exec_def execSync_def options_def split: prod.splits if_splits)

lemma exec_success: "succeeds sys command \<Longrightarrow> exec sys command = Inr None"
  by (auto simp: succeeds_def exec_def execSync_def options_def split: prod.splits if_splits)

lemma exec_failure: "\<not> succeeds sys command \<Longrightarrow> \<exists>e. exec sys command = Inl e"
  by (auto simp: succeeds_def exec_def execSync_def options_def split: prod.splits if_splits)

lemma isUnixInstalled_not_True: "isUnixInstalled sys program \<noteq> Inr True"
  by (auto simp: isUnixInstalled_def bind_js_def Boolean_def split: sum.splits option.splits
        dest: exec_never_a_value)

lemma isMacInstalled_not_True: "isMacInstalled sys program \<noteq> Inr True"
  by (auto simp: isMacInstalled_def bind_js_def Boolean_def split: sum.splits option.splits
        dest: exec_never_a_value)

lemma map_js_exec_all_False:
  "map_js (\<lambda>attempt. bind_js (exec sys attempt) (\<lambda>v. Inr (Boolean v))) cs = Inr bs \<Longrightarrow>
     True \<notin> set bs"
proof (induction cs arbitrary: bs)
  case Nil
  then show ?case by simp
next
  case (Cons c cs)
  then show ?case
    by (auto simp: bind_js_def Boolean_def split: sum.splits option.splits dest: exec_never_a_value)
qed

lemma isWindowsInstalled_not_True: "isWindowsInstalled sys program \<noteq> Inr True"
proof
  assume a: "isWindowsInstalled sys program = Inr True"
  then obtain bs where
    "map_js (\<lambda>attempt. bind_js (exec sys attempt) (\<lambda>v. Inr (Boolean v)))
       [''where '' @ program, ''where '' @ program @ ''.exe'',
        ''where.exe '' @ program, ''where.exe '' @ program @ ''.exe''] = Inr bs"
    and "True \<in> set bs"
    by (auto simp: isWindowsInstalled_def bind_js_def split: sum.splits simp del: map_js.simps)
  then show False
    using map_js_exec_all_False by blast
qed

lemma some_js_True:
  "some_js f xs = Inr True \<Longrightarrow> \<exists>x \<in> set xs. f x = Inr True"
  by (induction xs) (auto simp: bind_js_def split: sum.splits if_splits)

text \<open>
  Whatever the machine and the program: when the \<open>hash\<close> command fails, both
  \<open>isUnixInstalled\<close> and \<open>isInstalled\<close> end in its exception.
\<close>

lemma failing_hash_is_thrown:
  assumes "\<not> succeeds sys (''hash '' @ program @ '' 2>/dev/null'')"
  shows "\<exists>e. isUnixInstalled sys program = Inl e \<and> isInstalled sys program = Inl e"
proof -
  from exec_failure [OF assms] obtain e where
    "exec sys (''hash '' @ program @ '' 2>/dev/null'') = Inl e" ..
  then have "isUnixInstalled sys program = Inl e"
    by (simp add: isUnixInstalled_def bind_js_def)
  then have "isInstalled sys program = Inl e"
    by (simp add: isInstalled_def bind_js_def)
  with \<open>isUnixInstalled sys program = Inl e\<close> show ?thesis by blast
qed

text \<open>
  Claim C9 fails on the code. A probing command that ends with a status other than 0
  makes \<open>execSync\<close> throw, and nothing catches the exception: on a Linux machine
  without VirtualBox, \<open>isUnixInstalled\<close> and \<open>isInstalled\<close> end in the exception
  of the \<open>hash\<close> command instead of returning false, and \<open>promptForPlatform\<close>
  ends in the exception of its first probe.
\<close>

theorem failing_probe_is_thrown:
  "isUnixInstalled linux_without_programs ''virtualbox'' =
     Inl (CommandFailed ''hash virtualbox 2>/dev/null'' 1) \<and>
   isInstalled linux_without_programs ''virtualbox'' =
     Inl (CommandFailed ''hash virtualbox 2>/dev/null'' 1) \<and>
   promptForPlatform_choices linux_without_programs =
     Inl (CommandFailed ''hash kvm 2>/dev/null'' 1)"
  by code_simp

text \<open>
  Claim C10. \<open>exec\<close> ignores the output of the command, so it returns null when
  the command succeeds. Hence a command-based detector whose commands succeed
  returns false: \<open>isUnixInstalled\<close>, \<open>isMacInstalled\<close>, and \<open>isWindowsInstalled\<close>
  when all its four attempts succeed. None of the three ever returns true, and when
  \<open>isInstalled\<close> returns true, it is \<open>isDotDesktopInstalled\<close> that returned true.
\<close>

theorem command_detectors_never_report_installed:
  "(succeeds sys (''hash '' @ program @ '' 2>/dev/null'') \<longrightarrow>
      isUnixInstalled sys program = Inr False) \<and>
   (succeeds sys (''osascript -e 'id of application '' @ [CHR 0x22] @ program @ [CHR 0x22] @
                  ''' 2>&1>/dev/null'') \<longrightarrow>
      isMacInstalled sys program = Inr False) \<and>
   (succeeds sys (''where '' @ program) \<and> succeeds sys (''where '' @ program @ ''.exe'') \<and>
    succeeds sys (''where.exe '' @ program) \<and> succeeds sys (''where.exe '' @ program @ ''.exe'') \<longrightarrow>
      isWindowsInstalled sys program = Inr False) \<and>
   isUnixInstalled sys program \<noteq> Inr True \<and>
   isMacInstalled sys program \<noteq> Inr True \<and>
   isWindowsInstalled sys program \<noteq> Inr True \<and>
   (isInstalled sys program = Inr True \<longrightarrow> isDotDesktopInstalled sys program = Inr True)"
proof -
  have inst: "isDotDesktopInstalled sys program = Inr True"
    if "isInstalled sys program = Inr True"
  proof -
    from that have
      "\<exists>check \<in> set [isUnixInstalled, isMacInstalled, isWindowsInstalled, isDotDesktopInstalled].
         check sys program = Inr True"
      unfolding isInstalled_def by (rule some_js_True)
    then show ?thesis
      using isUnixInstalled_not_True isMacInstalled_not_True isWindowsInstalled_not_True
      by auto
  qed
  have unix: "isUnixInstalled sys program = Inr False"
    if "succeeds sys (''hash '' @ program @ '' 2>/dev/null'')"
    using exec_success [OF that] by (simp add: isUnixInstalled_def bind_js_def Boolean_def)
  have mac: "isMacInstalled sys program = Inr False"
    if "succeeds sys (''osascript -e 'id of application '' @ [CHR 0x22] @ program @ [CHR 0x22] @
                      ''' 2>&1>/dev/null'')"
    using exec_success [OF that] by (simp add: isMacInstalled_def bind_js_def Boolean_def)
  have win: "isWindowsInstalled sys program = Inr False"
    if "succeeds sys (''where '' @ program)" "succeeds sys (''where '' @ program @ ''.exe'')"
      "succeeds sys (''where.exe '' @ program)" "succeeds sys (''where.exe '' @ program @ ''.exe'')"
    using that [THEN exec_success]
    by (simp add: isWindowsInstalled_def bind_js_def Boolean_def)
  show ?thesis
    using inst unix mac win
      isUnixInstalled_not_True isMacInstalled_not_True isWindowsInstalled_not_True
    by blast
qed

theorem command_detectors_never_report_installed_witness:
  "succeeds agreeable_system ''hash virtualbox 2>/dev/null'' \<and>
   isUnixInstalled agreeable_system ''virtualbox'' = Inr False \<and>
   isInstalled agreeable_system ''virtualbox'' = Inr True \<and>
   isDotDesktopInstalled agreeable_system ''virtualbox'' = Inr True"
proof -
  have s: "succeeds agreeable_system (''hash '' @ ''virtualbox'' @ '' 2>/dev/null'')"
    by (simp add: succeeds_def agreeable_system_def)
  have i: "isInstalled agreeable_system ''virtualbox'' = Inr True"
    by code_simp
  show ?thesis
    using s i command_detectors_never_report_installed [of agreeable_system "''virtualbox''"]
    by simp
qed

end
